theory Spec2Isabelle
  imports Complex_Main
begin

section \<open>GPTQ configuration (gptq/common/gptq\_config.py)\<close>

subsection \<open>Values and errors\<close>

text \<open>
  Objects the configuration only stores (optimizers, loss and log callables) are handles
  to framework objects.  Mutable objects that are shared by reference live in a store: a
  list of objects, an address being an index, allocation appending at the end.
\<close>

datatype opaque = Opaque nat

type_synonym addr = nat

text \<open>\<^verbatim>\<open>class RoundingType(Enum): STE = 0; SoftQuantizer = 1\<close>\<close>

datatype RoundingType = STE | SoftQuantizer

text \<open>
  The annotation \<^verbatim>\<open>rounding_type: RoundingType\<close> is not enforced by Python, and the
  code itself has a branch for a value that is neither member
  (\<^verbatim>\<open>get_extended_quantizer_parametes\<close> ends with \<^verbatim>\<open>return {}\<close>), so the value
  passed as rounding type is either a member of the enum or some other object.
\<close>

datatype rounding_arg = RT RoundingType | NotRT opaque

text \<open>
  Modelled from the spec: the classes \<^verbatim>\<open>GPTQQuantizerConfig\<close> and
  \<^verbatim>\<open>SoftQuantizerConfig\<close> of gptq\_quantizer\_config.py are imported but not among the
  sources.  The quantizer-specific config is "a nested quantizer-specific config whose
  concrete type must match the chosen rounding policy"; \<^verbatim>\<open>SoftQuantizerConfig\<close> is a
  subclass of \<^verbatim>\<open>GPTQQuantizerConfig\<close> (the comment at \<^verbatim>\<open>_verify_quantizer_config\<close>:
  "exclude instance equality because of inheritance").  A class is one of the two, a
  user-written subclass of a class, or a class unrelated to both.
\<close>

datatype py_class =
    GPTQQuantizerConfig
  | SoftQuantizerConfig
  | Subclass string py_class
  | Unrelated string

text \<open>\<^verbatim>\<open>issubclass(c, d)\<close>: \<open>d\<close> is \<open>c\<close> or one of its ancestors.\<close>

fun issubclass :: "py_class \<Rightarrow> py_class \<Rightarrow> bool" where
  "issubclass (Subclass n b) d = (Subclass n b = d \<or> issubclass b d)"
| "issubclass SoftQuantizerConfig d = (d = SoftQuantizerConfig \<or> d = GPTQQuantizerConfig)"
| "issubclass GPTQQuantizerConfig d = (d = GPTQQuantizerConfig)"
| "issubclass (Unrelated n) d = (d = Unrelated n)"

text \<open>
  An instance of a quantizer config: its runtime class \<^verbatim>\<open>type(x)\<close> and the attribute
  \<^verbatim>\<open>n_batches\<close> that \<^verbatim>\<open>get_extended_quantizer_parametes\<close> reads (\<open>None\<close> is
  Python's \<^verbatim>\<open>None\<close>).
\<close>

record qconfig_obj =
  type_of :: py_class
  n_batches :: "int option"

definition isinstance :: "qconfig_obj \<Rightarrow> py_class \<Rightarrow> bool" where
  "isinstance x c = issubclass (type_of x) c"

text \<open>What the two calls of \<^verbatim>\<open>common.Logger.error\<close> in \<^verbatim>\<open>__init__\<close> report.\<close>

datatype log_message =
    QuantParamLearningWithSTE
  | UnsuitableQuantizerConfig py_class rounding_arg

datatype error =
    ConfigurationError log_message
  | ZeroDivisionError
  | TypeError string
  | AttributeError string
  | IndexError

text \<open>
  Modelled from the spec: \<^verbatim>\<open>common.Logger.error\<close> is not among the sources.  A
  configuration error is "logged as error and must halt construction"; "configuration
  errors are fatal and surfaced immediately at construction time".  So the call does not
  return: it raises, and the constructor that called it yields no instance.
\<close>

definition Logger_error :: "log_message \<Rightarrow> error + 'a" where
  "Logger_error msg = Inl (ConfigurationError msg)"

subsection \<open>DefaultDict and the defaults evaluated at class definition\<close>

text \<open>
  Modelled from the spec: \<^verbatim>\<open>DefaultDict\<close> (core/common/defaultdict.py) is not among the
  sources.  It is "a mapping with a per-key fallback-value factory used for
  bit-width-indexed settings where most bit widths share a default but specific ones may
  be overridden".  \<open>default_factory\<close> is the value the factory returns
  (\<^verbatim>\<open>lambda: 1\<close> returns 1).
\<close>

record DefaultDict =
  known_dict :: "int \<rightharpoonup> int"
  default_factory :: int

definition dd_get :: "DefaultDict \<Rightarrow> int \<Rightarrow> int" where
  "dd_get d k = (case known_dict d k of Some v \<Rightarrow> v | None \<Rightarrow> default_factory d)"

type_synonym dd_store = "DefaultDict list"

definition alloc :: "'a list \<Rightarrow> 'a \<Rightarrow> addr \<times> 'a list" where
  "alloc s x = (length s, s @ [x])"

text \<open>Reading and overriding a key of the DefaultDict object at an address.\<close>

definition dd_read :: "dd_store \<Rightarrow> addr \<Rightarrow> int \<Rightarrow> error + int" where
  "dd_read s a k = (if a < length s then Inr (dd_get (s ! a) k) else Inl (TypeError ''not a DefaultDict''))"

definition dd_override :: "dd_store \<Rightarrow> addr \<Rightarrow> int \<Rightarrow> int \<Rightarrow> dd_store" where
  "dd_override s a k v =
     (if a < length s then s[a := (s ! a)\<lparr>known_dict := (known_dict (s ! a))(k \<mapsto> v)\<rparr>] else s)"

text \<open>
  Python evaluates a default parameter value once, when the \<^verbatim>\<open>def\<close> is executed.  Each
  of the two \<^verbatim>\<open>__init__\<close> signatures has the defaults
  \<^verbatim>\<open>lsb_change_per_bit_width = DefaultDict({}, lambda: 1)\<close> and
  \<^verbatim>\<open>quantizer_config = SoftQuantizerConfig()\<close>: objects made at class definition and
  kept with the signature.
\<close>

record signature_defaults =
  default_lsb_change_per_bit_width :: addr
  default_quantizer_config :: qconfig_obj

record module_env =
  v1_defaults :: signature_defaults
  v2_defaults :: signature_defaults

definition new_lsb_default :: DefaultDict where
  "new_lsb_default = \<lparr>known_dict = Map.empty, default_factory = 1\<rparr>"

definition new_SoftQuantizerConfig :: qconfig_obj where
  "new_SoftQuantizerConfig = \<lparr>type_of = SoftQuantizerConfig, n_batches = None\<rparr>"

text \<open>
  Executing the module: the class body of \<^verbatim>\<open>GradientPTQConfig\<close> first, then that of
  \<^verbatim>\<open>GradientPTQConfigV2\<close>; each evaluates its own default expressions.
\<close>

definition define_classes :: "dd_store \<Rightarrow> module_env \<times> dd_store" where
  "define_classes s0 =
     (let (a1, s1) = alloc s0 new_lsb_default;
          (a2, s2) = alloc s1 new_lsb_default
      in (\<lparr>v1_defaults = \<lparr>default_lsb_change_per_bit_width = a1,
                           default_quantizer_config = new_SoftQuantizerConfig\<rparr>,
           v2_defaults = \<lparr>default_lsb_change_per_bit_width = a2,
                           default_quantizer_config = new_SoftQuantizerConfig\<rparr>\<rparr>, s2))"

subsection \<open>The constructors\<close>

text \<open>
  The parameters of \<^verbatim>\<open>__init__\<close> after the first one, once bound.  The body stores each
  under an attribute of the same name, so the same record is the attribute set of an
  instance (without \<^verbatim>\<open>n_iter\<close>).
\<close>

record gptq_params =
  optimizer :: opaque
  optimizer_rest :: "opaque option"
  loss :: "opaque option"
  log_function :: "opaque option"
  train_bias :: bool
  quantization_parameters_learning :: bool
  rounding_type :: rounding_arg
  lsb_change_per_bit_width :: addr
  eps :: rat
  use_jac_based_weights :: bool
  num_samples_for_loss :: int
  norm_weights :: bool
  optimizer_quantization_parameter :: "opaque option"
  optimizer_bias :: "opaque option"
  log_norm :: bool
  weights_n_iter :: int
  quantizer_config :: qconfig_obj

text \<open>
  The arguments of a call: a parameter with a default may be omitted (\<open>None\<close>).  For the
  parameters whose default is Python's \<^verbatim>\<open>None\<close>, omitting and passing \<^verbatim>\<open>None\<close> are
  the same.
\<close>

record gptq_kwargs =
  kw_optimizer :: opaque
  kw_optimizer_rest :: "opaque option"
  kw_loss :: "opaque option"
  kw_log_function :: "opaque option"
  kw_train_bias :: "bool option"
  kw_quantization_parameters_learning :: "bool option"
  kw_rounding_type :: "rounding_arg option"
  kw_lsb_change_per_bit_width :: "addr option"
  kw_eps :: "rat option"
  kw_use_jac_based_weights :: "bool option"
  kw_num_samples_for_loss :: "int option"
  kw_norm_weights :: "bool option"
  kw_optimizer_quantization_parameter :: "opaque option"
  kw_optimizer_bias :: "opaque option"
  kw_log_norm :: "bool option"
  kw_weights_n_iter :: "int option"
  kw_quantizer_config :: "qconfig_obj option"

definition dflt :: "'a \<Rightarrow> 'a option \<Rightarrow> 'a" where
  "dflt d x = (case x of None \<Rightarrow> d | Some v \<Rightarrow> v)"

text \<open>Binding the arguments of a call to the parameters of a signature.\<close>

definition bind_args :: "signature_defaults \<Rightarrow> gptq_kwargs \<Rightarrow> gptq_params" where
  "bind_args d kw =
     \<lparr>optimizer = kw_optimizer kw,
      optimizer_rest = kw_optimizer_rest kw,
      loss = kw_loss kw,
      log_function = kw_log_function kw,
      train_bias = dflt True (kw_train_bias kw),
      quantization_parameters_learning = dflt False (kw_quantization_parameters_learning kw),
      rounding_type = dflt (RT SoftQuantizer) (kw_rounding_type kw),
      lsb_change_per_bit_width =
        dflt (default_lsb_change_per_bit_width d) (kw_lsb_change_per_bit_width kw),
      eps = dflt (1 / 1000000) (kw_eps kw),
      use_jac_based_weights = dflt True (kw_use_jac_based_weights kw),
      num_samples_for_loss = dflt 16 (kw_num_samples_for_loss kw),
      norm_weights = dflt False (kw_norm_weights kw),
      optimizer_quantization_parameter = kw_optimizer_quantization_parameter kw,
      optimizer_bias = kw_optimizer_bias kw,
      log_norm = dflt True (kw_log_norm kw),
      weights_n_iter = dflt 50 (kw_weights_n_iter kw),
      quantizer_config = dflt (default_quantizer_config d) (kw_quantizer_config kw)\<rparr>"

record GradientPTQConfig = gptq_params +
  n_iter :: "int option"

record GradientPTQConfigV2 = GradientPTQConfig +
  n_epochs :: int

text \<open>
  \<^verbatim>\<open>_verify_quantizer_config\<close>: \<^verbatim>\<open>type(quantizer_config) == C\<close> compares the runtime
  class itself.
\<close>

definition verify_quantizer_config :: "qconfig_obj \<Rightarrow> rounding_arg \<Rightarrow> bool" where
  "verify_quantizer_config qc rt =
     (if rt = RT SoftQuantizer then type_of qc = SoftQuantizerConfig
      else type_of qc = GPTQQuantizerConfig)"

text \<open>
  The body of \<^verbatim>\<open>GradientPTQConfig.__init__\<close>, in source order: the attributes up to
  \<^verbatim>\<open>train_bias\<close> are stored, the first check may call \<^verbatim>\<open>Logger.error\<close>, the other
  attributes are stored, and \<^verbatim>\<open>quantizer_config\<close> is stored only if the second check
  passes; otherwise \<^verbatim>\<open>Logger.error\<close> is called.  An instance is the result only when
  neither call happened.
\<close>

definition init_body :: "int option \<Rightarrow> gptq_params \<Rightarrow> error + GradientPTQConfig" where
  "init_body n p =
     (if quantization_parameters_learning p \<and> rounding_type p = RT STE
      then Logger_error QuantParamLearningWithSTE
      else if verify_quantizer_config (quantizer_config p) (rounding_type p)
      then Inr (gptq_params.extend p (GradientPTQConfig.fields n))
      else Logger_error
             (UnsuitableQuantizerConfig (type_of (quantizer_config p)) (rounding_type p)))"

text \<open>\<^verbatim>\<open>GradientPTQConfig(n_iter, optimizer, ...)\<close>\<close>

definition GradientPTQConfig_init ::
  "module_env \<Rightarrow> int \<Rightarrow> gptq_kwargs \<Rightarrow> error + GradientPTQConfig" where
  "GradientPTQConfig_init env n kw = init_body (Some n) (bind_args (v1_defaults env) kw)"

text \<open>
  The body of \<^verbatim>\<open>GradientPTQConfigV2.__init__\<close>: \<^verbatim>\<open>super().__init__(n_iter=None, ...)\<close>
  with every other parameter passed on, then \<^verbatim>\<open>self.n_epochs = n_epochs\<close>.
\<close>

definition v2_init_body :: "int \<Rightarrow> gptq_params \<Rightarrow> error + GradientPTQConfigV2" where
  "v2_init_body e p =
     (case init_body None p of
        Inl err \<Rightarrow> Inl err
      | Inr c \<Rightarrow> Inr (GradientPTQConfig.extend c (GradientPTQConfigV2.fields e)))"

text \<open>\<^verbatim>\<open>GradientPTQConfigV2(n_epochs, optimizer, ...)\<close>\<close>

definition GradientPTQConfigV2_init ::
  "module_env \<Rightarrow> int \<Rightarrow> gptq_kwargs \<Rightarrow> error + GradientPTQConfigV2" where
  "GradientPTQConfigV2_init env e kw = v2_init_body e (bind_args (v2_defaults env) kw)"

text \<open>A call that passes only the required arguments.\<close>

definition only_required :: "opaque \<Rightarrow> gptq_kwargs" where
  "only_required opt =
     \<lparr>kw_optimizer = opt, kw_optimizer_rest = None, kw_loss = None, kw_log_function = None,
      kw_train_bias = None, kw_quantization_parameters_learning = None,
      kw_rounding_type = None, kw_lsb_change_per_bit_width = None, kw_eps = None,
      kw_use_jac_based_weights = None, kw_num_samples_for_loss = None,
      kw_norm_weights = None, kw_optimizer_quantization_parameter = None,
      kw_optimizer_bias = None, kw_log_norm = None, kw_weights_n_iter = None,
      kw_quantizer_config = None\<rparr>"

text \<open>
  The pairs the first testable property of the spec is about: the rounding type is
  \<^verbatim>\<open>SoftQuantizer\<close> and the config is not exactly a \<^verbatim>\<open>SoftQuantizerConfig\<close>, or the
  rounding type is \<^verbatim>\<open>STE\<close> and the config is not exactly a \<^verbatim>\<open>GPTQQuantizerConfig\<close>.
\<close>

definition mismatched :: "rounding_arg \<Rightarrow> qconfig_obj \<Rightarrow> bool" where
  "mismatched rt qc \<longleftrightarrow>
     (rt = RT SoftQuantizer \<and> type_of qc \<noteq> SoftQuantizerConfig) \<or>
     (rt = RT STE \<and> type_of qc \<noteq> GPTQQuantizerConfig)"

text \<open>
  A concrete run: the module executed on an empty store, and the instance that
  \<^verbatim>\<open>GradientPTQConfig(n, opt)\<close> makes there.
\<close>

definition env0 :: module_env where
  "env0 = fst (define_classes [])"

definition config_v1_of :: "int \<Rightarrow> GradientPTQConfig" where
  "config_v1_of n =
     gptq_params.extend (bind_args (v1_defaults env0) (only_required (Opaque 0)))
       (GradientPTQConfig.fields (Some n))"

subsection \<open>from\_v1\<close>

text \<open>
  \<^verbatim>\<open>n_epochs = int(round(config_v1.n_iter) / n_ptq_iter)\<close>.  \<^verbatim>\<open>round\<close> of an
  \<^verbatim>\<open>int\<close> is that \<^verbatim>\<open>int\<close>; \<^verbatim>\<open>/\<close> is true division, which raises on a zero
  divisor; \<^verbatim>\<open>int\<close> of the quotient truncates toward zero.  The quotient is computed
  here in exact rational arithmetic.  Python computes it as a double, correctly rounded;
  the truncation of the double is the truncation of the exact quotient as long as both
  operands are below \<open>2^52\<close> in magnitude, which is the range this model covers.
\<close>

definition py_round :: "int \<Rightarrow> int" where
  "py_round n = n"

definition py_truediv :: "int \<Rightarrow> int \<Rightarrow> error + rat" where
  "py_truediv a b = (if b = 0 then Inl ZeroDivisionError else Inr (of_int a / of_int b))"

definition py_int :: "rat \<Rightarrow> int" where
  "py_int q = (if 0 \<le> q then \<lfloor>q\<rfloor> else \<lceil>q\<rceil>)"

text \<open>
  \<^verbatim>\<open>v1_params\<close> is \<^verbatim>\<open>config_v1.__dict__\<close> without \<^verbatim>\<open>n_iter\<close>, passed as keyword
  arguments: every parameter of \<^verbatim>\<open>GradientPTQConfigV2.__init__\<close> is given explicitly.
  A \<^verbatim>\<open>config_v1\<close> whose \<^verbatim>\<open>n_iter\<close> is \<^verbatim>\<open>None\<close> makes \<^verbatim>\<open>round\<close> raise.
\<close>

definition from_v1 :: "int \<Rightarrow> GradientPTQConfig \<Rightarrow> error + GradientPTQConfigV2" where
  "from_v1 n_ptq_iter config_v1 =
     (case n_iter config_v1 of
        None \<Rightarrow> Inl (TypeError ''round'')
      | Some n \<Rightarrow>
          (case py_truediv (py_round n) n_ptq_iter of
             Inl err \<Rightarrow> Inl err
           | Inr q \<Rightarrow> v2_init_body (py_int q) (gptq_params.truncate config_v1)))"

subsection \<open>get\_extended\_quantizer\_parametes\<close>

text \<open>
  The values of the returned dictionary, and its keys: the four string constants of
  gptq\_constants.py are imported but not among the sources, so they are parameters.
\<close>

datatype param_value = PInt int | PBool bool | PNone | PDefaultDict addr

record gptq_constants =
  N_BATCHES_STR :: string
  QUANT_PARAM_LEARNING_STR :: string
  N_EPOCHS_STR :: string
  MAX_LSB_STR :: string

definition py_opt_int :: "int option \<Rightarrow> param_value" where
  "py_opt_int x = (case x of None \<Rightarrow> PNone | Some i \<Rightarrow> PInt i)"

text \<open>A dictionary display inserts its items from left to right.\<close>

definition get_extended_quantizer_parametes ::
  "gptq_constants \<Rightarrow> GradientPTQConfigV2 \<Rightarrow> (string \<rightharpoonup> param_value)" where
  "get_extended_quantizer_parametes k self =
     (if rounding_type self = RT SoftQuantizer then
        Map.empty
          (N_BATCHES_STR k \<mapsto> py_opt_int (n_batches (quantizer_config self)),
           QUANT_PARAM_LEARNING_STR k \<mapsto> PBool (quantization_parameters_learning self),
           N_EPOCHS_STR k \<mapsto> PInt (n_epochs self))
      else if rounding_type self = RT STE then
        Map.empty (MAX_LSB_STR k \<mapsto> PDefaultDict (lsb_change_per_bit_width self))
      else Map.empty)"

text \<open>
  Which class body defines which method, and the method resolution order: the method
  \<^verbatim>\<open>get_extended_quantizer_parametes\<close> stands in the body of
  \<^verbatim>\<open>GradientPTQConfigV2\<close>, after \<^verbatim>\<open>from_v1\<close>.
\<close>

datatype config_class = GradientPTQConfig_class | GradientPTQConfigV2_class

fun own_methods :: "config_class \<Rightarrow> string list" where
  "own_methods GradientPTQConfig_class = [''__init__'', ''_verify_quantizer_config'']"
| "own_methods GradientPTQConfigV2_class =
     [''__init__'', ''from_v1'', ''get_extended_quantizer_parametes'']"

fun mro :: "config_class \<Rightarrow> config_class list" where
  "mro GradientPTQConfig_class = [GradientPTQConfig_class]"
| "mro GradientPTQConfigV2_class = [GradientPTQConfigV2_class, GradientPTQConfig_class]"

definition has_method :: "config_class \<Rightarrow> string \<Rightarrow> bool" where
  "has_method c m = list_ex (\<lambda>k. m \<in> set (own_methods k)) (mro c)"

datatype config_instance = V1 GradientPTQConfig | V2 GradientPTQConfigV2

fun class_of :: "config_instance \<Rightarrow> config_class" where
  "class_of (V1 c) = GradientPTQConfig_class"
| "class_of (V2 c) = GradientPTQConfigV2_class"

text \<open>
  \<^verbatim>\<open>obj.get_extended_quantizer_parametes()\<close> on an instance of either class: the
  attribute lookup fails where no class of the resolution order defines the method.  The
  body reads \<^verbatim>\<open>self.n_epochs\<close>, which only \<^verbatim>\<open>GradientPTQConfigV2.__init__\<close> sets.
\<close>

definition call_get_extended_quantizer_parametes ::
  "gptq_constants \<Rightarrow> config_instance \<Rightarrow> error + (string \<rightharpoonup> param_value)" where
  "call_get_extended_quantizer_parametes k obj =
     (if \<not> has_method (class_of obj) ''get_extended_quantizer_parametes''
      then Inl (AttributeError ''get_extended_quantizer_parametes'')
      else (case obj of
              V2 c \<Rightarrow> Inr (get_extended_quantizer_parametes k c)
            | V1 c \<Rightarrow> Inl (AttributeError ''n_epochs'')))"

text \<open>
  Sample values for the four key constants, and the instance that
  \<^verbatim>\<open>GradientPTQConfigV2(e, opt)\<close> makes in the concrete run.
\<close>

definition example_constants :: gptq_constants where
  "example_constants =
     \<lparr>N_BATCHES_STR = ''n_batches'',
      QUANT_PARAM_LEARNING_STR = ''quantization_parameter_learning'',
      N_EPOCHS_STR = ''n_epochs'',
      MAX_LSB_STR = ''max_lsbs_change_map''\<rparr>"

definition config_v2_of :: "int \<Rightarrow> GradientPTQConfigV2" where
  "config_v2_of e =
     GradientPTQConfig.extend
       (gptq_params.extend (bind_args (v2_defaults env0) (only_required (Opaque 0)))
          (GradientPTQConfig.fields None))
       (GradientPTQConfigV2.fields e)"

section \<open>Graph and second-moment correction (second\_moment\_correction\_test.py)\<close>

text \<open>
  Modelled from the spec: \<^verbatim>\<open>BaseNode\<close> and \<^verbatim>\<open>Graph\<close> of core/common are imported
  but not among the sources.  A node has "op type, weight tensors (named), output
  shape(s), quantization-enabled flags (weights/activations, independently toggleable)"
  and a name; a graph "owns the set of nodes", iterated in a stable order.  Nodes are
  mutable objects: they live in a store and a graph holds their addresses.  Tensors are
  lists of numbers; the keys of the batch-normalization weights are the constants
  \<^verbatim>\<open>GAMMA\<close>, \<^verbatim>\<open>BETA\<close>, \<^verbatim>\<open>MOVING_MEAN\<close>, \<^verbatim>\<open>MOVING_VARIANCE\<close> of keras/constants.py.
\<close>

datatype layer_class =
  InputLayer | Conv2D | DepthwiseConv2D | Conv2DTranspose | BatchNormalization | Activation

datatype weight_key = GAMMA | BETA | MOVING_MEAN | MOVING_VARIANCE | KERNEL | BIAS

type_synonym tensor = "rat list"

datatype output_shape = ShapeList "int option list list" | ShapeTuple "int option list"

record BaseNode =
  name :: string
  node_type :: layer_class
  weights :: "weight_key \<rightharpoonup> tensor"
  output_shape :: output_shape
  weights_quantization_enabled :: bool
  activation_quantization_enabled :: bool

definition layer_class :: "BaseNode \<Rightarrow> layer_class" where
  "layer_class n = node_type n"

definition get_weights_by_keys :: "BaseNode \<Rightarrow> weight_key \<Rightarrow> tensor option" where
  "get_weights_by_keys n k = weights n k"

type_synonym node_store = "BaseNode list"

record Graph =
  nodes :: "addr list"

text \<open>
  A graph in a store: its node references are distinct and point into the store (Python
  has no dangling reference, and a graph holds a node once).
\<close>

definition graph_in_store :: "node_store \<Rightarrow> Graph \<Rightarrow> bool" where
  "graph_in_store s g \<longleftrightarrow> distinct (nodes g) \<and> list_all (\<lambda>a. a < length s) (nodes g)"

text \<open>
  Modelled from the spec: \<^verbatim>\<open>Graph.find_node_by_name\<close> is not among the sources.
  "\<^verbatim>\<open>find_node_by_name(name) -> set\<close>": the nodes of the graph whose name is the given
  one.  The caller in \<^verbatim>\<open>run_test\<close> takes element \<^verbatim>\<open>[0]\<close> of the result, so the
  result is kept as the sequence of these nodes in the graph's iteration order.
\<close>

definition find_node_by_name :: "node_store \<Rightarrow> Graph \<Rightarrow> string \<Rightarrow> addr list" where
  "find_node_by_name s g nm = filter (\<lambda>a. name (s ! a) = nm) (nodes g)"

text \<open>
  \<^verbatim>\<open>copy.deepcopy(tg)\<close>: every node of the graph is copied to a new object, and the new
  graph holds the copies in the same order.
\<close>

definition deepcopy :: "node_store \<Rightarrow> Graph \<Rightarrow> Graph \<times> node_store" where
  "deepcopy s g =
     (\<lparr>nodes = [length s ..< length s + length (nodes g)]\<rparr>, s @ map (\<lambda>a. s ! a) (nodes g))"

text \<open>
  Modelled from the spec: \<^verbatim>\<open>quantized_model_builder_for_second_moment_correction\<close> and
  \<^verbatim>\<open>keras_apply_second_moment_correction\<close> are not among the sources.  The pass
  "(2) builds a graph where only the target conv+BN subgraph is quantized
  (semi-quantized model); (3) runs \<^verbatim>\<open>weights_second_moment_iters\<close> batches of
  representative data through it, accumulating mean/variance of the BN's input;
  (4) overwrites the BN node's moving\_mean/moving\_variance parameters with the measured
  values; gamma and beta are left untouched".  The model built from a graph is the
  sequence of its nodes' values.  The forward passes belong to the tensor engine, which
  is a parameter: \<open>engine m nm\<close> is the (mean, variance) measured at the input of the
  batch-normalization layer named \<open>nm\<close> of the model \<open>m\<close>.
\<close>

type_synonym keras_model = "BaseNode list"

type_synonym engine = "keras_model \<Rightarrow> string \<Rightarrow> tensor \<times> tensor"

definition quantized_model_builder_for_second_moment_correction ::
  "node_store \<Rightarrow> Graph \<Rightarrow> keras_model" where
  "quantized_model_builder_for_second_moment_correction s g = map (\<lambda>a. s ! a) (nodes g)"

definition correct_node :: "engine \<Rightarrow> keras_model \<Rightarrow> BaseNode \<Rightarrow> BaseNode" where
  "correct_node e m n =
     (if layer_class n = BatchNormalization
      then n\<lparr>weights := (weights n)(MOVING_MEAN \<mapsto> fst (e m (name n)),
                                     MOVING_VARIANCE \<mapsto> snd (e m (name n)))\<rparr>
      else n)"

definition keras_apply_second_moment_correction ::
  "engine \<Rightarrow> keras_model \<Rightarrow> node_store \<Rightarrow> Graph \<Rightarrow> node_store" where
  "keras_apply_second_moment_correction e m s g =
     fold (\<lambda>a st. if a < length st then st[a := correct_node e m (st ! a)] else st) (nodes g) s"

text \<open>
  \<^verbatim>\<open>prepare_graph\<close> of the test, from the result of \<^verbatim>\<open>core_runner\<close> on (the graph
  \<^verbatim>\<open>tg\<close> in the store \<open>s\<close>): deep copy, build the semi-quantized model from the copy,
  apply the correction to the copy, return both graphs.
\<close>

definition prepare_graph :: "engine \<Rightarrow> node_store \<Rightarrow> Graph \<Rightarrow> (Graph \<times> Graph) \<times> node_store" where
  "prepare_graph e s tg =
     (let (graph_to_apply_second_moment, s1) = deepcopy s tg;
          semi_quantized_model =
            quantized_model_builder_for_second_moment_correction s1 graph_to_apply_second_moment;
          s2 = keras_apply_second_moment_correction e semi_quantized_model s1
                 graph_to_apply_second_moment
      in ((tg, graph_to_apply_second_moment), s2))"

text \<open>
  The loop of \<^verbatim>\<open>run_test\<close>: for every batch-normalization node of the corrected graph,
  the node of the same name in \<^verbatim>\<open>tg\<close> is looked up and the four weights are compared.
  The result is whether every assertion holds; \<^verbatim>\<open>[0]\<close> on an empty result raises.
\<close>

definition check_bn_node :: "node_store \<Rightarrow> Graph \<Rightarrow> BaseNode \<Rightarrow> error + bool" where
  "check_bn_node s tg n =
     (case find_node_by_name s tg (name n) of
        [] \<Rightarrow> Inl IndexError
      | b # _ \<Rightarrow>
          Inr (get_weights_by_keys (s ! b) GAMMA = get_weights_by_keys n GAMMA \<and>
               get_weights_by_keys (s ! b) BETA = get_weights_by_keys n BETA \<and>
               get_weights_by_keys (s ! b) MOVING_MEAN \<noteq> get_weights_by_keys n MOVING_MEAN \<and>
               get_weights_by_keys (s ! b) MOVING_VARIANCE
                 \<noteq> get_weights_by_keys n MOVING_VARIANCE))"

fun run_checks :: "node_store \<Rightarrow> Graph \<Rightarrow> addr list \<Rightarrow> error + bool" where
  "run_checks s tg [] = Inr True"
| "run_checks s tg (a # as) =
     (if layer_class (s ! a) = BatchNormalization
      then (case check_bn_node s tg (s ! a) of
              Inl err \<Rightarrow> Inl err
            | Inr ok \<Rightarrow> if ok then run_checks s tg as else Inr False)
      else run_checks s tg as)"

definition run_test :: "engine \<Rightarrow> node_store \<Rightarrow> Graph \<Rightarrow> error + bool" where
  "run_test e s tg0 =
     (let ((tg, graph_after_second_moment_correction), s') = prepare_graph e s tg0
      in run_checks s' tg (nodes graph_after_second_moment_correction))"

section \<open>Quantization dispatcher (exporter/model\_wrapper/keras/builder/node\_to\_dispatcher.py)\<close>

text \<open>
  \<^verbatim>\<open>get_weights_quantizer_for_node\<close> and \<^verbatim>\<open>get_activations_quantizer_for_node\<close>
  (node\_to\_quantizer.py) and \<^verbatim>\<open>DEFAULT_KERAS_INFO.get_kernel_op_attributes\<close> are not
  among the sources.  Each call of a quantizer getter makes a new quantizer object for
  the node, in a store of quantizer objects; the kernel-attribute table is a parameter.
  The dispatcher \<^verbatim>\<open>qi.KerasNodeQuantizationDispatcher\<close> holds the two containers it is
  constructed with.
\<close>

datatype quantizer = WeightsQuantizer BaseNode | ActivationsQuantizer BaseNode

type_synonym quantizer_store = "quantizer list"

definition get_weights_quantizer_for_node :: "BaseNode \<Rightarrow> quantizer_store \<Rightarrow> addr \<times> quantizer_store" where
  "get_weights_quantizer_for_node n s = alloc s (WeightsQuantizer n)"

definition get_activations_quantizer_for_node ::
  "BaseNode \<Rightarrow> quantizer_store \<Rightarrow> addr \<times> quantizer_store" where
  "get_activations_quantizer_for_node n s = alloc s (ActivationsQuantizer n)"

record KerasNodeQuantizationDispatcher =
  weight_quantizers :: "string \<rightharpoonup> addr"
  activation_quantizers :: "addr list"

definition is_weights_quantization_enabled :: "BaseNode \<Rightarrow> bool" where
  "is_weights_quantization_enabled n = weights_quantization_enabled n"

definition is_activation_quantization_enabled :: "BaseNode \<Rightarrow> bool" where
  "is_activation_quantization_enabled n = activation_quantization_enabled n"

text \<open>\<^verbatim>\<open>len(node.output_shape) if isinstance(node.output_shape, list) else 1\<close>\<close>

definition num_of_outputs :: "BaseNode \<Rightarrow> nat" where
  "num_of_outputs n = (case output_shape n of ShapeList l \<Rightarrow> length l | ShapeTuple t \<Rightarrow> 1)"

definition get_quantization_dispatcher ::
  "(layer_class \<Rightarrow> string list) \<Rightarrow> BaseNode \<Rightarrow> quantizer_store
     \<Rightarrow> KerasNodeQuantizationDispatcher \<times> quantizer_store" where
  "get_quantization_dispatcher get_kernel_op_attributes n s =
     (let (wqs, s1) =
            (if is_weights_quantization_enabled n then
               (let weight_attrs = get_kernel_op_attributes (node_type n);
                    (weight_quantizer, s') = get_weights_quantizer_for_node n s
                in (fold (\<lambda>attr d. d(attr \<mapsto> weight_quantizer)) weight_attrs Map.empty, s'))
             else (Map.empty, s));
          (aqs, s2) =
            (if is_activation_quantization_enabled n then
               (let (q, s') = get_activations_quantizer_for_node n s1
                in (replicate (num_of_outputs n) q, s'))
             else ([], s1))
      in (\<lparr>weight_quantizers = wqs, activation_quantizers = aqs\<rparr>, s2))"

section \<open>A concrete network\<close>

text \<open>
  The network of \<^verbatim>\<open>ValueSecondMomentTest.create_networks\<close>: an input, a 1x1
  \<^verbatim>\<open>Conv2D\<close> with kernel ones and bias zeros, a \<^verbatim>\<open>BatchNormalization\<close> with gamma 1,
  beta 0, moving mean 0 and moving variance 1, and a relu activation.  The engine of the
  example measures mean 8 and variance 1/4 (the inputs of \<^verbatim>\<open>generate_inputs\<close> are normal
  with \<^verbatim>\<open>loc=8.0, scale=0.5\<close>).  The kernel-attribute table of the example gives a
  convolution its kernel.
\<close>

definition input_node :: BaseNode where
  "input_node =
     \<lparr>name = ''input'', node_type = InputLayer, weights = Map.empty,
      output_shape = ShapeTuple [None, Some 32, Some 32, Some 1],
      weights_quantization_enabled = False, activation_quantization_enabled = True\<rparr>"

definition conv_node :: BaseNode where
  "conv_node =
     \<lparr>name = ''conv2d'', node_type = Conv2D, weights = [KERNEL \<mapsto> [1], BIAS \<mapsto> [0]],
      output_shape = ShapeTuple [None, Some 32, Some 32, Some 1],
      weights_quantization_enabled = True, activation_quantization_enabled = False\<rparr>"

definition bn_node :: BaseNode where
  "bn_node =
     \<lparr>name = ''batch_normalization'', node_type = BatchNormalization,
      weights = [GAMMA \<mapsto> [1], BETA \<mapsto> [0], MOVING_MEAN \<mapsto> [0], MOVING_VARIANCE \<mapsto> [1]],
      output_shape = ShapeTuple [None, Some 32, Some 32, Some 1],
      weights_quantization_enabled = False, activation_quantization_enabled = False\<rparr>"

definition relu_node :: BaseNode where
  "relu_node =
     \<lparr>name = ''activation'', node_type = Activation, weights = Map.empty,
      output_shape = ShapeTuple [None, Some 32, Some 32, Some 1],
      weights_quantization_enabled = False, activation_quantization_enabled = True\<rparr>"

definition example_store :: node_store where
  "example_store = [input_node, conv_node, bn_node, relu_node]"

definition example_graph :: Graph where
  "example_graph = \<lparr>nodes = [0, 1, 2, 3]\<rparr>"

definition example_engine :: engine where
  "example_engine m nm = ([8], [1 / 4])"

definition example_kernel_attributes :: "layer_class \<Rightarrow> string list" where
  "example_kernel_attributes t =
     (if t = Conv2D \<or> t = Conv2DTranspose then [''kernel'']
      else if t = DepthwiseConv2D then [''depthwise_kernel'']
      else [])"

text \<open>A node with two outputs, both quantizations enabled.\<close>

definition two_output_node :: BaseNode where
  "two_output_node =
     \<lparr>name = ''conv2d'', node_type = Conv2D, weights = [KERNEL \<mapsto> [1], BIAS \<mapsto> [0]],
      output_shape = ShapeList [[None, Some 32, Some 32, Some 1], [None, Some 32, Some 32, Some 1]],
      weights_quantization_enabled = True, activation_quantization_enabled = True\<rparr>"

section \<open>Properties of the GPTQ configuration\<close>

lemma init_body_mismatch:
  assumes "mismatched (rounding_type p) (quantizer_config p)"
  shows "init_body n p =
     Inl (ConfigurationError
       (if quantization_parameters_learning p \<and> rounding_type p = RT STE
        then QuantParamLearningWithSTE
        else UnsuitableQuantizerConfig (type_of (quantizer_config p)) (rounding_type p)))"
  using assms
  by (auto simp: mismatched_def init_body_def verify_quantizer_config_def Logger_error_def)

lemma init_body_qpl_ste:
  assumes "quantization_parameters_learning p" and "rounding_type p = RT STE"
  shows "init_body n p = Inl (ConfigurationError QuantParamLearningWithSTE)"
  using assms by (simp add: init_body_def Logger_error_def)

lemma init_body_Inr:
  "init_body n p = Inr c \<longleftrightarrow>
     \<not> (quantization_parameters_learning p \<and> rounding_type p = RT STE) \<and>
     verify_quantizer_config (quantizer_config p) (rounding_type p) \<and>
     c = gptq_params.extend p (GradientPTQConfig.fields n)"
  by (auto simp: init_body_def Logger_error_def)

lemma truncate_extend:
  "gptq_params.truncate (gptq_params.extend p (GradientPTQConfig.fields n)) = p"
  by (cases p) (simp add: gptq_params.truncate_def gptq_params.extend_def gptq_params.defs)

lemma env0_eq:
  "env0 = \<lparr>v1_defaults = \<lparr>default_lsb_change_per_bit_width = 0,
                            default_quantizer_config = new_SoftQuantizerConfig\<rparr>,
           v2_defaults = \<lparr>default_lsb_change_per_bit_width = 1,
                            default_quantizer_config = new_SoftQuantizerConfig\<rparr>\<rparr>"
  by (simp add: env0_def define_classes_def alloc_def)

lemma init_config_v1_of:
  "GradientPTQConfig_init env0 n (only_required (Opaque 0)) = Inr (config_v1_of n)"
  by (simp add: GradientPTQConfig_init_def init_body_Inr config_v1_of_def bind_args_def
        only_required_def dflt_def verify_quantizer_config_def env0_eq
        new_SoftQuantizerConfig_def)

text \<open>
  C1: whenever the rounding type and the quantizer config, as bound by the call, are a
  mismatched pair, the constructor ends in a configuration error and returns no instance;
  this holds for \<^verbatim>\<open>GradientPTQConfig\<close> and for \<^verbatim>\<open>GradientPTQConfigV2\<close>, whatever the
  other arguments are.
\<close>

theorem mismatched_config_is_rejected:
  "(mismatched (rounding_type (bind_args (v1_defaults env) kw))
               (quantizer_config (bind_args (v1_defaults env) kw)) \<longrightarrow>
      (\<exists>msg. GradientPTQConfig_init env n kw = Inl (ConfigurationError msg)) \<and>
      (\<forall>c. GradientPTQConfig_init env n kw \<noteq> Inr c)) \<and>
   (mismatched (rounding_type (bind_args (v2_defaults env) kw))
               (quantizer_config (bind_args (v2_defaults env) kw)) \<longrightarrow>
      (\<exists>msg. GradientPTQConfigV2_init env e kw = Inl (ConfigurationError msg)) \<and>
      (\<forall>c. GradientPTQConfigV2_init env e kw \<noteq> Inr c))"
  by (simp add: GradientPTQConfig_init_def GradientPTQConfigV2_init_def v2_init_body_def
        init_body_mismatch)

text \<open>
  At \<^verbatim>\<open>GradientPTQConfig(500, opt, rounding_type=RoundingType.STE)\<close> the quantizer
  config is the default \<^verbatim>\<open>SoftQuantizerConfig()\<close>, which does not suit \<^verbatim>\<open>STE\<close>.
\<close>

theorem mismatched_config_is_rejected_witness:
  "mismatched
     (rounding_type (bind_args (v1_defaults env0)
        ((only_required (Opaque 0))\<lparr>kw_rounding_type := Some (RT STE)\<rparr>)))
     (quantizer_config (bind_args (v1_defaults env0)
        ((only_required (Opaque 0))\<lparr>kw_rounding_type := Some (RT STE)\<rparr>))) \<and>
   mismatched
     (rounding_type (bind_args (v2_defaults env0)
        ((only_required (Opaque 0))\<lparr>kw_rounding_type := Some (RT STE)\<rparr>)))
     (quantizer_config (bind_args (v2_defaults env0)
        ((only_required (Opaque 0))\<lparr>kw_rounding_type := Some (RT STE)\<rparr>))) \<and>
   GradientPTQConfig_init env0 500 ((only_required (Opaque 0))\<lparr>kw_rounding_type := Some (RT STE)\<rparr>)
     = Inl (ConfigurationError (UnsuitableQuantizerConfig SoftQuantizerConfig (RT STE))) \<and>
   GradientPTQConfigV2_init env0 50 ((only_required (Opaque 0))\<lparr>kw_rounding_type := Some (RT STE)\<rparr>)
     = Inl (ConfigurationError (UnsuitableQuantizerConfig SoftQuantizerConfig (RT STE)))"
  using mismatched_config_is_rejected
    [of env0 "(only_required (Opaque 0))\<lparr>kw_rounding_type := Some (RT STE)\<rparr>" 500 50]
  by (simp add: mismatched_def bind_args_def only_required_def dflt_def env0_eq
        new_SoftQuantizerConfig_def GradientPTQConfig_init_def GradientPTQConfigV2_init_def
        v2_init_body_def init_body_def verify_quantizer_config_def Logger_error_def)

text \<open>
  C2: a call that passes \<^verbatim>\<open>quantization_parameters_learning=True\<close> and
  \<^verbatim>\<open>rounding_type=RoundingType.STE\<close> is rejected by both constructors with the
  configuration error of the first check, whatever the other arguments are.
\<close>

theorem param_learning_with_STE_is_rejected:
  "kw_quantization_parameters_learning kw = Some True \<and> kw_rounding_type kw = Some (RT STE) \<longrightarrow>
     GradientPTQConfig_init env n kw = Inl (ConfigurationError QuantParamLearningWithSTE) \<and>
     GradientPTQConfigV2_init env e kw = Inl (ConfigurationError QuantParamLearningWithSTE)"
  by (simp add: GradientPTQConfig_init_def GradientPTQConfigV2_init_def v2_init_body_def
        init_body_qpl_ste dflt_def bind_args_def)

theorem param_learning_with_STE_is_rejected_witness:
  "GradientPTQConfig_init env0 500
     ((only_required (Opaque 0))
        \<lparr>kw_quantization_parameters_learning := Some True,
         kw_rounding_type := Some (RT STE),
         kw_quantizer_config := Some \<lparr>type_of = GPTQQuantizerConfig, n_batches = None\<rparr>\<rparr>)
     = Inl (ConfigurationError QuantParamLearningWithSTE) \<and>
   GradientPTQConfigV2_init env0 50
     ((only_required (Opaque 0))
        \<lparr>kw_quantization_parameters_learning := Some True,
         kw_rounding_type := Some (RT STE),
         kw_quantizer_config := Some \<lparr>type_of = GPTQQuantizerConfig, n_batches = None\<rparr>\<rparr>)
     = Inl (ConfigurationError QuantParamLearningWithSTE)"
  using param_learning_with_STE_is_rejected
    [of "(only_required (Opaque 0))
           \<lparr>kw_quantization_parameters_learning := Some True,
            kw_rounding_type := Some (RT STE),
            kw_quantizer_config := Some \<lparr>type_of = GPTQQuantizerConfig, n_batches = None\<rparr>\<rparr>"
        env0 500 50]
  by (simp add: only_required_def)

lemma py_int_div:
  assumes d: "d \<noteq> 0"
  shows "py_int (of_int n / of_int d) = sgn n * sgn d * (\<bar>n\<bar> div \<bar>d\<bar>)"
proof -
  have pos: "\<lfloor>(of_int a / of_int b :: rat)\<rfloor> = a div b" for a b :: int
    by (simp add: floor_divide_of_int_eq)
  have neg: "\<lceil>- (of_int a / of_int b :: rat)\<rceil> = - (a div b)" for a b :: int
    by (simp add: ceiling_minus floor_divide_of_int_eq)
  consider "0 \<le> n" "0 < d" | "n < 0" "0 < d" | "0 \<le> n" "d < 0" | "n < 0" "d < 0"
    using d by linarith
  then show ?thesis
  proof cases
    case 1
    then show ?thesis using pos[of n d] by (cases "n = 0") (simp_all add: py_int_def)
  next
    case 2
    then have q: "(of_int n / of_int d :: rat) = - (of_int (- n) / of_int d)" by simp
    have "(of_int n / of_int d :: rat) < 0" using 2 by (simp add: divide_neg_pos)
    then show ?thesis using 2 neg[of "- n" d] unfolding py_int_def q by simp
  next
    case 3
    then have q: "(of_int n / of_int d :: rat) = - (of_int n / of_int (- d))" by simp
    show ?thesis
    proof (cases "n = 0")
      case True
      then show ?thesis by (simp add: py_int_def)
    next
      case False
      then have "(of_int n / of_int d :: rat) < 0" using 3 by (simp add: divide_pos_neg)
      then show ?thesis using 3 False neg[of n "- d"] unfolding py_int_def q by simp
    qed
  next
    case 4
    then have q: "(of_int n / of_int d :: rat) = of_int (- n) / of_int (- d)" by simp
    have "0 \<le> (of_int n / of_int d :: rat)" using 4 by (simp add: divide_nonpos_neg)
    then show ?thesis using 4 pos[of "- n" "- d"] unfolding py_int_def q by simp
  qed
qed

lemma from_v1_of_constructed:
  assumes "GradientPTQConfig_init env n kw = Inr c" and "d \<noteq> 0"
  shows "from_v1 d c =
           Inr (GradientPTQConfig.extend
                  (gptq_params.extend (gptq_params.truncate c) (GradientPTQConfig.fields None))
                  (GradientPTQConfigV2.fields (py_int (of_int n / of_int d))))"
proof -
  let ?p = "bind_args (v1_defaults env) kw"
  from assms(1)
  have ok: "\<not> (quantization_parameters_learning ?p \<and> rounding_type ?p = RT STE)"
           "verify_quantizer_config (quantizer_config ?p) (rounding_type ?p)"
    and c: "c = gptq_params.extend ?p (GradientPTQConfig.fields (Some n))"
    unfolding GradientPTQConfig_init_def init_body_Inr by blast+
  have t: "gptq_params.truncate c = ?p"
    unfolding c by (rule truncate_extend)
  have ni: "n_iter c = Some n"
    unfolding c
    by (simp add: gptq_params.extend_def GradientPTQConfig.fields_def GradientPTQConfig.defs)
  have ib: "init_body None ?p = Inr (gptq_params.extend ?p (GradientPTQConfig.fields None))"
    using ok unfolding init_body_Inr by blast
  show ?thesis
    using assms(2) by (simp add: from_v1_def ni py_truediv_def py_round_def t v2_init_body_def ib)
qed

lemma v2_of_fields:
  "n_epochs (GradientPTQConfig.extend (gptq_params.extend p (GradientPTQConfig.fields x))
               (GradientPTQConfigV2.fields e)) = e"
  "n_iter (GradientPTQConfig.extend (gptq_params.extend p (GradientPTQConfig.fields x))
             (GradientPTQConfigV2.fields e)) = x"
  "gptq_params.truncate (GradientPTQConfig.extend (gptq_params.extend p (GradientPTQConfig.fields x))
             (GradientPTQConfigV2.fields e)) = p"
  by (cases p; simp add: gptq_params.extend_def GradientPTQConfig.fields_def GradientPTQConfig.defs
        GradientPTQConfigV2.defs gptq_params.defs GradientPTQConfig.extend_def
        GradientPTQConfigV2.fields_def)+

text \<open>
  C3 (as amended): for a \<^verbatim>\<open>config_v1\<close> made by the constructor with \<^verbatim>\<open>n_iter = n\<close> and
  a non-zero \<^verbatim>\<open>n_ptq_iter = d\<close>, both below \<open>2^52\<close> in magnitude, \<^verbatim>\<open>from_v1\<close> returns
  a V2 config whose \<^verbatim>\<open>n_epochs\<close> is the quotient \<open>n / d\<close> truncated toward zero to an
  integer, whose \<^verbatim>\<open>n_iter\<close> is \<^verbatim>\<open>None\<close>, and whose other attributes are those of
  \<^verbatim>\<open>config_v1\<close>.  With \<open>n = 500\<close> and \<open>d = 10\<close> this is 50.
\<close>

theorem from_v1_truncated_quotient:
  assumes "GradientPTQConfig_init env n kw = Inr c"
    and "d \<noteq> 0"
    and "\<bar>n\<bar> < 2 ^ 52" and "\<bar>d\<bar> < 2 ^ 52"
  shows "\<exists>v2. from_v1 d c = Inr v2 \<and>
           n_epochs v2 = py_int (of_int n / of_int d) \<and>
           n_epochs v2 = sgn n * sgn d * (\<bar>n\<bar> div \<bar>d\<bar>) \<and>
           n_iter v2 = None \<and>
           gptq_params.truncate v2 = gptq_params.truncate c"
  using from_v1_of_constructed[OF assms(1,2)] py_int_div[OF assms(2), of n]
  by (simp add: v2_of_fields)

theorem from_v1_truncated_quotient_witness:
  "GradientPTQConfig_init env0 500 (only_required (Opaque 0)) = Inr (config_v1_of 500) \<and>
   (10::int) \<noteq> 0 \<and> \<bar>500::int\<bar> < 2 ^ 52 \<and> \<bar>10::int\<bar> < 2 ^ 52 \<and>
   (\<exists>v2. from_v1 10 (config_v1_of 500) = Inr v2 \<and> n_epochs v2 = 50 \<and> n_iter v2 = None \<and>
         gptq_params.truncate v2 = gptq_params.truncate (config_v1_of 500))"
proof -
  have h: "GradientPTQConfig_init env0 500 (only_required (Opaque 0)) = Inr (config_v1_of 500)"
    by (rule init_config_v1_of)
  show ?thesis
    using h from_v1_truncated_quotient[OF h, of 10] by auto
qed

text \<open>
  The claim as stated, with \<^verbatim>\<open>/\<close> read as the division the source writes: at
  \<^verbatim>\<open>n_iter = 5\<close>, \<^verbatim>\<open>n_ptq_iter = 2\<close> the epoch count is 2, not \<open>5 / 2\<close>.
\<close>

theorem from_v1_not_exact_quotient:
  "GradientPTQConfig_init env0 5 (only_required (Opaque 0)) = Inr (config_v1_of 5) \<and>
   map_sum id n_epochs (from_v1 2 (config_v1_of 5)) = Inr 2 \<and>
   (of_int 2 :: rat) \<noteq> of_int (py_round 5) / of_int 2"
proof -
  have h: "GradientPTQConfig_init env0 5 (only_required (Opaque 0)) = Inr (config_v1_of 5)"
    by (rule init_config_v1_of)
  have "py_int (of_int 5 / of_int 2) = sgn 5 * sgn 2 * (\<bar>5\<bar> div \<bar>2\<bar>)"
    by (rule py_int_div) simp
  then have "py_int (5 / 2) = 2"
    by simp
  then show ?thesis
    using h from_v1_of_constructed[OF h, of 2] by (simp add: v2_of_fields py_round_def)
qed

text \<open>
  C6: \<^verbatim>\<open>_verify_quantizer_config\<close> accepts for \<^verbatim>\<open>STE\<close> exactly the objects whose
  runtime class is \<^verbatim>\<open>GPTQQuantizerConfig\<close> itself and for \<^verbatim>\<open>SoftQuantizer\<close> exactly
  those whose runtime class is \<^verbatim>\<open>SoftQuantizerConfig\<close> itself.  So an instance of a
  strict subclass of \<^verbatim>\<open>GPTQQuantizerConfig\<close>, \<^verbatim>\<open>SoftQuantizerConfig\<close> among them, is
  rejected for \<^verbatim>\<open>STE\<close> although \<^verbatim>\<open>isinstance\<close> holds, and an instance of a strict
  subclass of \<^verbatim>\<open>SoftQuantizerConfig\<close> is rejected for \<^verbatim>\<open>SoftQuantizer\<close>.
\<close>

theorem verify_quantizer_config_exact_type:
  "(verify_quantizer_config qc (RT STE) \<longleftrightarrow> type_of qc = GPTQQuantizerConfig) \<and>
   (verify_quantizer_config qc (RT SoftQuantizer) \<longleftrightarrow> type_of qc = SoftQuantizerConfig) \<and>
   (isinstance qc GPTQQuantizerConfig \<and> type_of qc \<noteq> GPTQQuantizerConfig
      \<longrightarrow> \<not> verify_quantizer_config qc (RT STE)) \<and>
   (type_of qc = SoftQuantizerConfig
      \<longrightarrow> isinstance qc GPTQQuantizerConfig \<and> \<not> verify_quantizer_config qc (RT STE)) \<and>
   (isinstance qc SoftQuantizerConfig \<and> type_of qc \<noteq> SoftQuantizerConfig
      \<longrightarrow> \<not> verify_quantizer_config qc (RT SoftQuantizer))"
  by (simp add: verify_quantizer_config_def isinstance_def)

text \<open>
  An instance of a user-written subclass of \<^verbatim>\<open>GPTQQuantizerConfig\<close>, and an instance of
  \<^verbatim>\<open>SoftQuantizerConfig\<close>: both are instances of \<^verbatim>\<open>GPTQQuantizerConfig\<close>, both are
  rejected for \<^verbatim>\<open>STE\<close>.
\<close>

theorem verify_quantizer_config_exact_type_witness:
  "isinstance \<lparr>type_of = Subclass ''MyConfig'' GPTQQuantizerConfig, n_batches = None\<rparr>
     GPTQQuantizerConfig \<and>
   \<not> verify_quantizer_config
       \<lparr>type_of = Subclass ''MyConfig'' GPTQQuantizerConfig, n_batches = None\<rparr> (RT STE) \<and>
   isinstance \<lparr>type_of = SoftQuantizerConfig, n_batches = None\<rparr> GPTQQuantizerConfig \<and>
   \<not> verify_quantizer_config \<lparr>type_of = SoftQuantizerConfig, n_batches = None\<rparr> (RT STE) \<and>
   verify_quantizer_config \<lparr>type_of = SoftQuantizerConfig, n_batches = None\<rparr> (RT SoftQuantizer) \<and>
   isinstance \<lparr>type_of = Subclass ''MySoft'' SoftQuantizerConfig, n_batches = None\<rparr>
     SoftQuantizerConfig \<and>
   \<not> verify_quantizer_config
       \<lparr>type_of = Subclass ''MySoft'' SoftQuantizerConfig, n_batches = None\<rparr> (RT SoftQuantizer)"
  using verify_quantizer_config_exact_type
          [of "\<lparr>type_of = Subclass ''MyConfig'' GPTQQuantizerConfig, n_batches = None\<rparr>"]
        verify_quantizer_config_exact_type
          [of "\<lparr>type_of = SoftQuantizerConfig, n_batches = None\<rparr>"]
        verify_quantizer_config_exact_type
          [of "\<lparr>type_of = Subclass ''MySoft'' SoftQuantizerConfig, n_batches = None\<rparr>"]
  by (simp add: isinstance_def)

lemma init_config_v2_of:
  "GradientPTQConfigV2_init env0 e (only_required (Opaque 0)) = Inr (config_v2_of e)"
  by (simp add: GradientPTQConfigV2_init_def v2_init_body_def init_body_def config_v2_of_def
        bind_args_def only_required_def dflt_def verify_quantizer_config_def env0_eq
        new_SoftQuantizerConfig_def)

lemma config_v2_of_fields:
  "rounding_type (config_v2_of e) = RT SoftQuantizer"
  "n_epochs (config_v2_of e) = e"
  "quantization_parameters_learning (config_v2_of e) = False"
  "lsb_change_per_bit_width (config_v2_of e) = 1"
  "n_batches (quantizer_config (config_v2_of e)) = None"
  by (simp_all add: config_v2_of_def bind_args_def only_required_def dflt_def env0_eq
        new_SoftQuantizerConfig_def gptq_params.extend_def GradientPTQConfig.fields_def
        GradientPTQConfig.defs GradientPTQConfigV2.defs gptq_params.defs
        GradientPTQConfig.extend_def GradientPTQConfigV2.fields_def)

lemma config_v1_of_fields:
  "rounding_type (config_v1_of n) = RT SoftQuantizer"
  "n_iter (config_v1_of n) = Some n"
  "lsb_change_per_bit_width (config_v1_of n) = 0"
  by (simp_all add: config_v1_of_def bind_args_def only_required_def dflt_def env0_eq
        new_SoftQuantizerConfig_def gptq_params.extend_def GradientPTQConfig.fields_def
        GradientPTQConfig.defs gptq_params.defs)

text \<open>
  C5 (as amended): \<^verbatim>\<open>get_extended_quantizer_parametes\<close> is a method of
  \<^verbatim>\<open>GradientPTQConfigV2\<close> only; on an instance of \<^verbatim>\<open>GradientPTQConfig\<close> the attribute
  lookup fails.  On a V2 instance it returns, for \<^verbatim>\<open>SoftQuantizer\<close>, a dictionary whose
  keys are exactly those for n\_batches, quantization-parameters-learning and n\_epochs
  (with the values of the quantizer config's \<^verbatim>\<open>n_batches\<close>, of
  \<^verbatim>\<open>quantization_parameters_learning\<close> and of \<^verbatim>\<open>n_epochs\<close> when the three key
  constants are distinct); for \<^verbatim>\<open>STE\<close>, the dictionary with the single max-LSB key
  mapped to \<^verbatim>\<open>lsb_change_per_bit_width\<close>; for any other rounding type, the empty
  dictionary.
\<close>

theorem get_extended_quantizer_parametes_by_rounding_type:
  "call_get_extended_quantizer_parametes k (V2 c) = Inr (get_extended_quantizer_parametes k c) \<and>
   (rounding_type c = RT SoftQuantizer \<longrightarrow>
      dom (get_extended_quantizer_parametes k c)
        = {N_BATCHES_STR k, QUANT_PARAM_LEARNING_STR k, N_EPOCHS_STR k} \<and>
      (distinct [N_BATCHES_STR k, QUANT_PARAM_LEARNING_STR k, N_EPOCHS_STR k] \<longrightarrow>
         get_extended_quantizer_parametes k c (N_BATCHES_STR k)
           = Some (py_opt_int (n_batches (quantizer_config c))) \<and>
         get_extended_quantizer_parametes k c (QUANT_PARAM_LEARNING_STR k)
           = Some (PBool (quantization_parameters_learning c)) \<and>
         get_extended_quantizer_parametes k c (N_EPOCHS_STR k) = Some (PInt (n_epochs c)))) \<and>
   (rounding_type c = RT STE \<longrightarrow>
      get_extended_quantizer_parametes k c
        = [MAX_LSB_STR k \<mapsto> PDefaultDict (lsb_change_per_bit_width c)]) \<and>
   (rounding_type c \<noteq> RT SoftQuantizer \<and> rounding_type c \<noteq> RT STE \<longrightarrow>
      get_extended_quantizer_parametes k c = Map.empty) \<and>
   call_get_extended_quantizer_parametes k (V1 c1)
     = Inl (AttributeError ''get_extended_quantizer_parametes'')"
  by (auto simp: call_get_extended_quantizer_parametes_def has_method_def
        get_extended_quantizer_parametes_def)

theorem get_extended_quantizer_parametes_by_rounding_type_witness:
  "GradientPTQConfigV2_init env0 50 (only_required (Opaque 0)) = Inr (config_v2_of 50) \<and>
   call_get_extended_quantizer_parametes example_constants (V2 (config_v2_of 50))
     = Inr [''n_batches'' \<mapsto> PNone, ''quantization_parameter_learning'' \<mapsto> PBool False,
            ''n_epochs'' \<mapsto> PInt 50] \<and>
   dom (get_extended_quantizer_parametes example_constants (config_v2_of 50))
     = {''n_batches'', ''quantization_parameter_learning'', ''n_epochs''} \<and>
   get_extended_quantizer_parametes example_constants
       ((config_v2_of 50)\<lparr>rounding_type := RT STE\<rparr>)
     = [''max_lsbs_change_map'' \<mapsto> PDefaultDict 1] \<and>
   get_extended_quantizer_parametes example_constants
       ((config_v2_of 50)\<lparr>rounding_type := NotRT (Opaque 7)\<rparr>)
     = Map.empty"
  using get_extended_quantizer_parametes_by_rounding_type
          [of example_constants "config_v2_of 50" "config_v1_of 500"]
        get_extended_quantizer_parametes_by_rounding_type
          [of example_constants "(config_v2_of 50)\<lparr>rounding_type := RT STE\<rparr>"
              "config_v1_of 500"]
        get_extended_quantizer_parametes_by_rounding_type
          [of example_constants "(config_v2_of 50)\<lparr>rounding_type := NotRT (Opaque 7)\<rparr>"
              "config_v1_of 500"]
        init_config_v2_of [of 50]
  by (simp add: config_v2_of_fields example_constants_def
        get_extended_quantizer_parametes_def py_opt_int_def)

text \<open>
  The claim as stated fails for the first class: the instance made by
  \<^verbatim>\<open>GradientPTQConfig(500, opt)\<close> has no method \<^verbatim>\<open>get_extended_quantizer_parametes\<close>.
\<close>

theorem GradientPTQConfig_lacks_get_extended_quantizer_parametes:
  "GradientPTQConfig_init env0 500 (only_required (Opaque 0)) = Inr (config_v1_of 500) \<and>
   \<not> has_method GradientPTQConfig_class ''get_extended_quantizer_parametes'' \<and>
   call_get_extended_quantizer_parametes example_constants (V1 (config_v1_of 500))
     = Inl (AttributeError ''get_extended_quantizer_parametes'')"
  by (simp add: init_config_v1_of call_get_extended_quantizer_parametes_def has_method_def)

lemma init_lsb_default:
  assumes "init_body n (bind_args d kw) = Inr c"
    and "kw_lsb_change_per_bit_width kw = None"
  shows "lsb_change_per_bit_width c = default_lsb_change_per_bit_width d"
  using assms
  by (simp add: init_body_Inr bind_args_def dflt_def gptq_params.extend_def
        GradientPTQConfig.fields_def GradientPTQConfig.defs gptq_params.defs)

lemma v2_init_lsb_default:
  assumes "v2_init_body e (bind_args d kw) = Inr c"
    and "kw_lsb_change_per_bit_width kw = None"
  shows "lsb_change_per_bit_width c = default_lsb_change_per_bit_width d"
proof -
  from assms(1) obtain c0 where c0: "init_body None (bind_args d kw) = Inr c0"
    and c: "c = GradientPTQConfig.extend c0 (GradientPTQConfigV2.fields e)"
    by (auto simp: v2_init_body_def split: sum.splits)
  have "lsb_change_per_bit_width c = lsb_change_per_bit_width c0"
    unfolding c by (cases c0) (simp add: GradientPTQConfig.extend_def GradientPTQConfigV2.fields_def
        GradientPTQConfig.defs GradientPTQConfigV2.defs)
  with init_lsb_default[OF c0 assms(2)] show ?thesis by simp
qed

lemma define_classes_defaults:
  assumes "define_classes s0 = (env, s)"
  shows "default_lsb_change_per_bit_width (v1_defaults env) = length s0"
    and "default_lsb_change_per_bit_width (v2_defaults env) = Suc (length s0)"
    and "s = s0 @ [new_lsb_default, new_lsb_default]"
  using assms by (auto simp: define_classes_def alloc_def)

lemma dd_read_override:
  "a < length s \<Longrightarrow> dd_read (dd_override s a k v) a k = Inr v"
  by (simp add: dd_read_def dd_override_def dd_get_def)

text \<open>
  C9: the default \<^verbatim>\<open>DefaultDict({}, lambda: 1)\<close> is made once per signature when the
  classes are defined.  Any two \<^verbatim>\<open>GradientPTQConfig\<close> instances constructed without an
  \<^verbatim>\<open>lsb_change_per_bit_width\<close> argument hold the same reference, the one made at class
  definition, and in every later store an override made through one instance is read
  through the other; likewise for any two \<^verbatim>\<open>GradientPTQConfigV2\<close> instances.
\<close>

theorem default_lsb_change_per_bit_width_is_shared:
  assumes "define_classes s0 = (env, s)"
    and "kw_lsb_change_per_bit_width kw1 = None" and "kw_lsb_change_per_bit_width kw2 = None"
    and "GradientPTQConfig_init env n1 kw1 = Inr c1"
    and "GradientPTQConfig_init env n2 kw2 = Inr c2"
    and "kw_lsb_change_per_bit_width kw3 = None" and "kw_lsb_change_per_bit_width kw4 = None"
    and "GradientPTQConfigV2_init env e3 kw3 = Inr c3"
    and "GradientPTQConfigV2_init env e4 kw4 = Inr c4"
    and "length s \<le> length s'"
  shows "lsb_change_per_bit_width c1 = default_lsb_change_per_bit_width (v1_defaults env) \<and>
         lsb_change_per_bit_width c2 = lsb_change_per_bit_width c1 \<and>
         dd_read (dd_override s' (lsb_change_per_bit_width c1) k v)
                 (lsb_change_per_bit_width c2) k = Inr v \<and>
         lsb_change_per_bit_width c3 = default_lsb_change_per_bit_width (v2_defaults env) \<and>
         lsb_change_per_bit_width c4 = lsb_change_per_bit_width c3 \<and>
         dd_read (dd_override s' (lsb_change_per_bit_width c3) k v)
                 (lsb_change_per_bit_width c4) k = Inr v"
proof -
  note d = define_classes_defaults[OF assms(1)]
  have l1: "lsb_change_per_bit_width c1 = length s0"
    using init_lsb_default[OF assms(4)[unfolded GradientPTQConfig_init_def] assms(2)] d(1) by simp
  have l2: "lsb_change_per_bit_width c2 = length s0"
    using init_lsb_default[OF assms(5)[unfolded GradientPTQConfig_init_def] assms(3)] d(1) by simp
  have l3: "lsb_change_per_bit_width c3 = Suc (length s0)"
    using v2_init_lsb_default[OF assms(8)[unfolded GradientPTQConfigV2_init_def] assms(6)] d(2)
    by simp
  have l4: "lsb_change_per_bit_width c4 = Suc (length s0)"
    using v2_init_lsb_default[OF assms(9)[unfolded GradientPTQConfigV2_init_def] assms(7)] d(2)
    by simp
  have len: "length s0 < length s'" "Suc (length s0) < length s'"
    using assms(10) d(3) by simp_all
  show ?thesis
    using len by (simp add: l1 l2 l3 l4 d(1,2) dd_read_override)
qed

text \<open>
  In the concrete run: before the override the second instance reads the factory's 1 for
  bit width 8; after the override through the first instance it reads 2.
\<close>

theorem default_lsb_change_per_bit_width_is_shared_witness:
  "define_classes [] = (env0, [new_lsb_default, new_lsb_default]) \<and>
   GradientPTQConfig_init env0 100 (only_required (Opaque 0)) = Inr (config_v1_of 100) \<and>
   GradientPTQConfig_init env0 200 (only_required (Opaque 0)) = Inr (config_v1_of 200) \<and>
   GradientPTQConfigV2_init env0 10 (only_required (Opaque 0)) = Inr (config_v2_of 10) \<and>
   GradientPTQConfigV2_init env0 20 (only_required (Opaque 0)) = Inr (config_v2_of 20) \<and>
   dd_read [new_lsb_default, new_lsb_default]
     (lsb_change_per_bit_width (config_v1_of 200)) 8 = Inr 1 \<and>
   dd_read (dd_override [new_lsb_default, new_lsb_default]
              (lsb_change_per_bit_width (config_v1_of 100)) 8 2)
     (lsb_change_per_bit_width (config_v1_of 200)) 8 = Inr 2 \<and>
   dd_read (dd_override [new_lsb_default, new_lsb_default]
              (lsb_change_per_bit_width (config_v2_of 10)) 8 2)
     (lsb_change_per_bit_width (config_v2_of 20)) 8 = Inr 2"
proof -
  have dc: "define_classes [] = (env0, [new_lsb_default, new_lsb_default])"
    by (simp add: env0_def define_classes_def alloc_def)
  have kw: "kw_lsb_change_per_bit_width (only_required (Opaque 0)) = None"
    by (simp add: only_required_def)
  have before: "dd_read [new_lsb_default, new_lsb_default]
                  (lsb_change_per_bit_width (config_v1_of 200)) 8 = Inr 1"
    by (simp add: config_v1_of_fields dd_read_def dd_get_def new_lsb_default_def)
  show ?thesis
    using default_lsb_change_per_bit_width_is_shared
            [OF dc kw kw init_config_v1_of [of 100] init_config_v1_of [of 200]
                kw kw init_config_v2_of [of 10] init_config_v2_of [of 20] order_refl, of 8 2]
          dc before init_config_v1_of init_config_v2_of
    by (simp add: config_v1_of_fields config_v2_of_fields env0_eq)
qed

section \<open>Properties of the quantization dispatcher\<close>

lemma fold_assign_all:
  "fold (\<lambda>attr d. d(attr \<mapsto> q)) attrs m = (\<lambda>x. if x \<in> set attrs then Some q else m x)"
  by (induction attrs arbitrary: m) (auto simp: fun_eq_iff)

lemma dom_fold_assign_all:
  "dom (fold (\<lambda>attr d. d(attr \<mapsto> q)) attrs Map.empty) = set attrs"
  by (auto simp: fold_assign_all dom_def)

text \<open>
  C10: for every node and every kernel-attribute table, the dispatcher returned by
  \<^verbatim>\<open>get_quantization_dispatcher\<close> is such that: with weights quantization enabled, the
  keys of the weight-quantizer mapping are exactly the node's kernel attributes and all
  of them are mapped to one quantizer object, newly made for the node; with activation
  quantization enabled, the activation-quantizer list has as many entries as the node
  has outputs (\<^verbatim>\<open>len(output_shape)\<close> for a list, otherwise 1), all the same newly made
  object; with weights (respectively activation) quantization disabled, the mapping
  (respectively the list) is empty.
\<close>

theorem get_quantization_dispatcher_containers:
  assumes "get_quantization_dispatcher attrs n s = (d, s')"
  shows "(is_weights_quantization_enabled n \<longrightarrow>
            dom (weight_quantizers d) = set (attrs (node_type n)) \<and>
            (\<exists>q. length s \<le> q \<and> q < length s' \<and> s' ! q = WeightsQuantizer n \<and>
                 (\<forall>a \<in> set (attrs (node_type n)). weight_quantizers d a = Some q))) \<and>
         (\<not> is_weights_quantization_enabled n \<longrightarrow> weight_quantizers d = Map.empty) \<and>
         (is_activation_quantization_enabled n \<longrightarrow>
            length (activation_quantizers d)
              = (case output_shape n of ShapeList l \<Rightarrow> length l | ShapeTuple t \<Rightarrow> 1) \<and>
            (\<exists>q. length s \<le> q \<and> q < length s' \<and> s' ! q = ActivationsQuantizer n \<and>
                 (\<forall>x \<in> set (activation_quantizers d). x = q))) \<and>
         (\<not> is_activation_quantization_enabled n \<longrightarrow> activation_quantizers d = [])"
proof -
  let ?wq = "length s"
  let ?s1 = "if is_weights_quantization_enabled n then s @ [WeightsQuantizer n] else s"
  let ?aq = "length ?s1"
  have d: "weight_quantizers d =
             (if is_weights_quantization_enabled n
              then fold (\<lambda>attr m. m(attr \<mapsto> ?wq)) (attrs (node_type n)) Map.empty
              else Map.empty)"
    and a: "activation_quantizers d =
             (if is_activation_quantization_enabled n
              then replicate (num_of_outputs n) ?aq else [])"
    and s': "s' = (if is_activation_quantization_enabled n
                   then ?s1 @ [ActivationsQuantizer n] else ?s1)"
    using assms
    by (auto simp: get_quantization_dispatcher_def get_weights_quantizer_for_node_def
          get_activations_quantizer_for_node_def alloc_def Let_def split: if_splits)
  have w: "is_weights_quantization_enabled n \<Longrightarrow>
             dom (weight_quantizers d) = set (attrs (node_type n)) \<and>
             (\<exists>q. length s \<le> q \<and> q < length s' \<and> s' ! q = WeightsQuantizer n \<and>
                  (\<forall>a \<in> set (attrs (node_type n)). weight_quantizers d a = Some q))"
  proof -
    assume en: "is_weights_quantization_enabled n"
    have "?wq < length s'" "s' ! ?wq = WeightsQuantizer n"
      using en by (simp_all add: s' nth_append)
    moreover have "\<forall>a \<in> set (attrs (node_type n)). weight_quantizers d a = Some ?wq"
      using en by (simp add: d fold_assign_all)
    moreover have "dom (weight_quantizers d) = set (attrs (node_type n))"
      using en by (simp add: d dom_fold_assign_all)
    ultimately show ?thesis by blast
  qed
  have ac: "is_activation_quantization_enabled n \<Longrightarrow>
              length (activation_quantizers d)
                = (case output_shape n of ShapeList l \<Rightarrow> length l | ShapeTuple t \<Rightarrow> 1) \<and>
              (\<exists>q. length s \<le> q \<and> q < length s' \<and> s' ! q = ActivationsQuantizer n \<and>
                   (\<forall>x \<in> set (activation_quantizers d). x = q))"
  proof -
    assume en: "is_activation_quantization_enabled n"
    have "length s \<le> ?aq" "?aq < length s'" "s' ! ?aq = ActivationsQuantizer n"
      using en by (simp_all add: s')
    moreover have "\<forall>x \<in> set (activation_quantizers d). x = ?aq"
      using en by (simp add: a)
    moreover have "length (activation_quantizers d)
                     = (case output_shape n of ShapeList l \<Rightarrow> length l | ShapeTuple t \<Rightarrow> 1)"
      using en by (simp add: a num_of_outputs_def)
    ultimately show ?thesis by blast
  qed
  have nw: "\<not> is_weights_quantization_enabled n \<Longrightarrow> weight_quantizers d = Map.empty"
    by (simp add: d)
  have na: "\<not> is_activation_quantization_enabled n \<Longrightarrow> activation_quantizers d = []"
    by (simp add: a)
  show ?thesis
    using w ac nw na by blast
qed

text \<open>
  A convolution with two outputs and both quantizations enabled, from an empty quantizer
  store: the kernel is mapped to quantizer 0, both outputs to quantizer 1.  The
  batch-normalization node of the concrete network has both disabled.
\<close>

theorem get_quantization_dispatcher_containers_witness:
  "get_quantization_dispatcher example_kernel_attributes two_output_node []
     = (\<lparr>weight_quantizers = [''kernel'' \<mapsto> 0], activation_quantizers = [1, 1]\<rparr>,
        [WeightsQuantizer two_output_node, ActivationsQuantizer two_output_node]) \<and>
   is_weights_quantization_enabled two_output_node \<and>
   is_activation_quantization_enabled two_output_node \<and>
   dom [''kernel'' \<mapsto> (0::nat)] = set (example_kernel_attributes (node_type two_output_node)) \<and>
   length [1::nat, 1] = (case output_shape two_output_node of ShapeList l \<Rightarrow> length l | ShapeTuple t \<Rightarrow> 1) \<and>
   get_quantization_dispatcher example_kernel_attributes bn_node []
     = (\<lparr>weight_quantizers = Map.empty, activation_quantizers = []\<rparr>, [])"
proof -
  have g: "get_quantization_dispatcher example_kernel_attributes two_output_node []
     = (\<lparr>weight_quantizers = [''kernel'' \<mapsto> 0], activation_quantizers = [1, 1]\<rparr>,
        [WeightsQuantizer two_output_node, ActivationsQuantizer two_output_node])"
    by (simp add: get_quantization_dispatcher_def get_weights_quantizer_for_node_def
          get_activations_quantizer_for_node_def alloc_def is_weights_quantization_enabled_def
          is_activation_quantization_enabled_def num_of_outputs_def two_output_node_def
          example_kernel_attributes_def numeral_2_eq_2)
  have b: "get_quantization_dispatcher example_kernel_attributes bn_node []
     = (\<lparr>weight_quantizers = Map.empty, activation_quantizers = []\<rparr>, [])"
    by (simp add: get_quantization_dispatcher_def is_weights_quantization_enabled_def
          is_activation_quantization_enabled_def bn_node_def)
  show ?thesis
    using get_quantization_dispatcher_containers[OF g] g b
    by (simp add: is_weights_quantization_enabled_def is_activation_quantization_enabled_def
          two_output_node_def example_kernel_attributes_def)
qed

section \<open>Properties of the graph and of the second-moment correction\<close>

lemma correct_node_name [simp]: "name (correct_node e m n) = name n"
  by (simp add: correct_node_def)

lemma correct_node_layer_class [simp]: "layer_class (correct_node e m n) = layer_class n"
  by (simp add: correct_node_def layer_class_def)

lemma correct_node_idem [simp]: "correct_node e m (correct_node e m n) = correct_node e m n"
  by (simp add: correct_node_def layer_class_def)

lemma correct_node_weights:
  "weights (correct_node e m n) k =
     (if layer_class n = BatchNormalization \<and> k = MOVING_MEAN then Some (fst (e m (name n)))
      else if layer_class n = BatchNormalization \<and> k = MOVING_VARIANCE
      then Some (snd (e m (name n)))
      else weights n k)"
  by (simp add: correct_node_def)

lemma length_correction [simp]:
  "length (keras_apply_second_moment_correction e m s g) = length s"
proof -
  have "length (fold (\<lambda>a st. if a < length st then st[a := correct_node e m (st ! a)] else st)
                  as s) = length s" for as
    by (induction as arbitrary: s) simp_all
  then show ?thesis by (simp add: keras_apply_second_moment_correction_def)
qed

lemma nth_correction:
  assumes "b < length s"
  shows "keras_apply_second_moment_correction e m s g ! b =
           (if b \<in> set (nodes g) then correct_node e m (s ! b) else s ! b)"
proof -
  have "b < length s \<Longrightarrow>
        fold (\<lambda>a st. if a < length st then st[a := correct_node e m (st ! a)] else st) as s ! b
          = (if b \<in> set as then correct_node e m (s ! b) else s ! b)" for as
  proof (induction as arbitrary: s)
    case Nil
    then show ?case by simp
  next
    case (Cons a as)
    let ?s = "if a < length s then s[a := correct_node e m (s ! a)] else s"
    have len: "b < length ?s" using Cons.prems by simp
    have at: "?s ! b = (if b = a then correct_node e m (s ! b) else s ! b)"
      using Cons.prems by (auto simp: nth_list_update)
    show ?case
      using Cons.IH[OF len] at by auto
  qed
  with assms show ?thesis by (simp add: keras_apply_second_moment_correction_def)
qed

lemma prepare_graph_eq:
  "prepare_graph e s tg =
     ((tg, \<lparr>nodes = [length s ..< length s + length (nodes tg)]\<rparr>),
      s @ map (\<lambda>a. correct_node e (map (\<lambda>a. s ! a) (nodes tg)) (s ! a)) (nodes tg))"
proof -
  let ?k = "length (nodes tg)"
  let ?g2 = "\<lparr>nodes = [length s ..< length s + ?k]\<rparr>"
  let ?s1 = "s @ map (\<lambda>a. s ! a) (nodes tg)"
  let ?m = "map (\<lambda>a. s ! a) (nodes tg)"
  have m: "quantized_model_builder_for_second_moment_correction ?s1 ?g2 = ?m"
    by (auto simp: quantized_model_builder_for_second_moment_correction_def
          intro!: nth_equalityI simp: nth_append)
  have "keras_apply_second_moment_correction e ?m ?s1 ?g2
          = s @ map (\<lambda>a. correct_node e ?m (s ! a)) (nodes tg)"
    by (rule nth_equalityI) (auto simp: nth_correction nth_append)
  then show ?thesis
    by (simp add: prepare_graph_def deepcopy_def m Let_def)
qed

text \<open>
  C7: \<^verbatim>\<open>find_node_by_name\<close> returns the collection of the nodes of the graph whose name
  is the given one: its elements are exactly these nodes, each once when the graph holds
  each node once.  It is a collection, not a single node: it has as many elements as the
  graph has nodes of that name.
\<close>

theorem find_node_by_name_is_the_set_of_nodes_with_that_name:
  "set (find_node_by_name s g nm) = {a \<in> set (nodes g). name (s ! a) = nm} \<and>
   (distinct (nodes g) \<longrightarrow>
      distinct (find_node_by_name s g nm) \<and>
      length (find_node_by_name s g nm) = card {a \<in> set (nodes g). name (s ! a) = nm})"
proof -
  have s: "set (find_node_by_name s g nm) = {a \<in> set (nodes g). name (s ! a) = nm}"
    by (simp add: find_node_by_name_def)
  have "distinct (nodes g) \<Longrightarrow> distinct (find_node_by_name s g nm)"
    by (simp add: find_node_by_name_def)
  then show ?thesis
    using s distinct_card[of "find_node_by_name s g nm"] by auto
qed

text \<open>
  A store in which two nodes are named \<^verbatim>\<open>conv2d\<close>: both are returned; the name of the
  batch-normalization node gives that node alone, an unknown name gives nothing.
\<close>

theorem find_node_by_name_is_the_set_of_nodes_with_that_name_witness:
  "distinct (nodes \<lparr>nodes = [0, 1, 2]\<rparr>) \<and>
   find_node_by_name [conv_node, bn_node, two_output_node] \<lparr>nodes = [0, 1, 2]\<rparr> ''conv2d''
     = [0, 2] \<and>
   {a \<in> set (nodes \<lparr>nodes = [0, 1, 2]\<rparr>).
      name ([conv_node, bn_node, two_output_node] ! a) = ''conv2d''} = {0, 2} \<and>
   find_node_by_name [conv_node, bn_node, two_output_node] \<lparr>nodes = [0, 1, 2]\<rparr>
     ''batch_normalization'' = [1] \<and>
   find_node_by_name [conv_node, bn_node, two_output_node] \<lparr>nodes = [0, 1, 2]\<rparr> ''dense'' = []"
proof -
  have f: "find_node_by_name [conv_node, bn_node, two_output_node] \<lparr>nodes = [0, 1, 2]\<rparr>
             ''conv2d'' = [0, 2]"
    by (simp add: find_node_by_name_def conv_node_def bn_node_def two_output_node_def)
  show ?thesis
    using find_node_by_name_is_the_set_of_nodes_with_that_name
            [of "[conv_node, bn_node, two_output_node]" "\<lparr>nodes = [0, 1, 2]\<rparr>" "''conv2d''"] f
    by (simp add: find_node_by_name_def conv_node_def bn_node_def two_output_node_def)
qed

text \<open>
  C4: applying the second-moment correction to a graph leaves gamma and beta of each of
  its batch-normalization nodes as they were, and sets its moving mean and moving
  variance to the measured statistics; so each of the two changes exactly when the
  measured value differs from the value the node held.
\<close>

theorem second_moment_correction_keeps_gamma_beta:
  assumes "graph_in_store s g"
    and "a \<in> set (nodes g)"
    and "layer_class (s ! a) = BatchNormalization"
    and "s' = keras_apply_second_moment_correction e m s g"
  shows "get_weights_by_keys (s' ! a) GAMMA = get_weights_by_keys (s ! a) GAMMA \<and>
         get_weights_by_keys (s' ! a) BETA = get_weights_by_keys (s ! a) BETA \<and>
         get_weights_by_keys (s' ! a) MOVING_MEAN = Some (fst (e m (name (s ! a)))) \<and>
         get_weights_by_keys (s' ! a) MOVING_VARIANCE = Some (snd (e m (name (s ! a)))) \<and>
         (get_weights_by_keys (s ! a) MOVING_MEAN \<noteq> Some (fst (e m (name (s ! a)))) \<longrightarrow>
            get_weights_by_keys (s' ! a) MOVING_MEAN \<noteq> get_weights_by_keys (s ! a) MOVING_MEAN) \<and>
         (get_weights_by_keys (s ! a) MOVING_VARIANCE \<noteq> Some (snd (e m (name (s ! a)))) \<longrightarrow>
            get_weights_by_keys (s' ! a) MOVING_VARIANCE
              \<noteq> get_weights_by_keys (s ! a) MOVING_VARIANCE)"
proof -
  have "a < length s"
    using assms(1,2) by (auto simp: graph_in_store_def list_all_iff)
  then have "s' ! a = correct_node e m (s ! a)"
    using assms(2,4) by (simp add: nth_correction)
  then show ?thesis
    using assms(3) by (simp add: get_weights_by_keys_def correct_node_weights)
qed

theorem second_moment_correction_keeps_gamma_beta_witness:
  "graph_in_store example_store example_graph \<and>
   2 \<in> set (nodes example_graph) \<and>
   layer_class (example_store ! 2) = BatchNormalization \<and>
   get_weights_by_keys
     (keras_apply_second_moment_correction example_engine example_store example_store
        example_graph ! 2) GAMMA = Some [1] \<and>
   get_weights_by_keys
     (keras_apply_second_moment_correction example_engine example_store example_store
        example_graph ! 2) BETA = Some [0] \<and>
   get_weights_by_keys (example_store ! 2) MOVING_MEAN = Some [0] \<and>
   get_weights_by_keys
     (keras_apply_second_moment_correction example_engine example_store example_store
        example_graph ! 2) MOVING_MEAN = Some [8] \<and>
   get_weights_by_keys (example_store ! 2) MOVING_VARIANCE = Some [1] \<and>
   get_weights_by_keys
     (keras_apply_second_moment_correction example_engine example_store example_store
        example_graph ! 2) MOVING_VARIANCE = Some [1 / 4]"
proof -
  have g: "graph_in_store example_store example_graph"
    by (simp add: graph_in_store_def example_store_def example_graph_def)
  have a: "2 \<in> set (nodes example_graph)"
    by (simp add: example_graph_def)
  have l: "layer_class (example_store ! 2) = BatchNormalization"
    by (simp add: example_store_def bn_node_def layer_class_def)
  show ?thesis
    using second_moment_correction_keeps_gamma_beta
            [OF g a l refl, of example_engine example_store] g a l
    by (simp add: example_store_def bn_node_def get_weights_by_keys_def example_engine_def)
qed

lemma filter_unique_key:
  assumes "distinct (map f xs)" and "i < length xs"
  shows "filter (\<lambda>a. f a = f (xs ! i)) xs = [xs ! i]"
  using assms
proof (induction xs arbitrary: i)
  case Nil
  then show ?case by simp
next
  case (Cons x xs)
  show ?case
  proof (cases i)
    case 0
    have "f x \<notin> f ` set xs"
      using Cons.prems(1) by simp
    then have "\<forall>a \<in> set xs. f a \<noteq> f x"
      by (metis imageI)
    then have "filter (\<lambda>a. f a = f x) xs = []"
      by (simp add: filter_empty_conv)
    then show ?thesis using 0 by simp
  next
    case (Suc j)
    then have j: "j < length xs" using Cons.prems(2) by simp
    have "f x \<noteq> f (xs ! j)"
      using Cons.prems(1) j by (metis distinct.simps(2) image_eqI list.simps(9) nth_mem set_map)
    then show ?thesis
      using Suc Cons.IH[OF _ j] Cons.prems(1) by simp
  qed
qed

lemma run_checks_all:
  assumes "\<And>a. a \<in> set as \<Longrightarrow> layer_class (s ! a) = BatchNormalization \<Longrightarrow>
             check_bn_node s tg (s ! a) = Inr True"
  shows "run_checks s tg as = Inr True"
  using assms by (induction as) simp_all

text \<open>
  C8: \<^verbatim>\<open>prepare_graph\<close> returns the graph of \<^verbatim>\<open>core_runner\<close> itself together with the
  corrected copy.  Every object that was in the store keeps its value, the nodes of the
  original graph among them, so the original still holds the pre-correction parameters;
  the copy shares no node with the original, has as many nodes, and its node at each
  position is the corrected value of the original's node at that position.
\<close>

theorem prepare_graph_leaves_original_graph_unchanged:
  assumes "graph_in_store s tg"
    and "prepare_graph e s tg = ((tg', g2), s')"
  shows "tg' = tg \<and>
         (\<forall>a < length s. s' ! a = s ! a) \<and>
         (\<forall>a \<in> set (nodes tg). s' ! a = s ! a) \<and>
         graph_in_store s' tg \<and> graph_in_store s' g2 \<and>
         set (nodes g2) \<inter> set (nodes tg) = {} \<and>
         length (nodes g2) = length (nodes tg) \<and>
         (\<forall>i < length (nodes tg).
            s' ! (nodes g2 ! i) =
              correct_node e (map (\<lambda>a. s ! a) (nodes tg)) (s ! (nodes tg ! i)))"
proof -
  let ?k = "length (nodes tg)"
  let ?m = "map (\<lambda>a. s ! a) (nodes tg)"
  from assms(2) have tg': "tg' = tg"
    and g2: "g2 = \<lparr>nodes = [length s ..< length s + ?k]\<rparr>"
    and s': "s' = s @ map (\<lambda>a. correct_node e ?m (s ! a)) (nodes tg)"
    by (auto simp: prepare_graph_eq)
  have inr: "\<And>a. a \<in> set (nodes tg) \<Longrightarrow> a < length s"
    and dist: "distinct (nodes tg)"
    using assms(1) by (auto simp: graph_in_store_def list_all_iff)
  have old: "\<forall>a < length s. s' ! a = s ! a"
    by (simp add: s' nth_append)
  have orig: "\<forall>a \<in> set (nodes tg). s' ! a = s ! a"
    using old inr by blast
  have wf1: "graph_in_store s' tg"
    using inr dist by (fastforce simp: graph_in_store_def list_all_iff s' intro: trans_less_add1)
  have wf2: "graph_in_store s' g2"
    by (auto simp: graph_in_store_def list_all_iff s' g2)
  have disj: "set (nodes g2) \<inter> set (nodes tg) = {}"
    using inr by (fastforce simp: g2)
  have cp: "\<forall>i < ?k. s' ! (nodes g2 ! i) = correct_node e ?m (s ! (nodes tg ! i))"
    by (simp add: g2 s' nth_append)
  show ?thesis
    using tg' old orig wf1 wf2 disj cp by (simp add: g2)
qed

text \<open>
  In the concrete network the copy's batch normalization has the measured moving
  statistics while the original's still has moving mean 0 and moving variance 1.
\<close>

theorem prepare_graph_leaves_original_graph_unchanged_witness:
  "graph_in_store example_store example_graph \<and>
   fst (prepare_graph example_engine example_store example_graph)
     = (example_graph, \<lparr>nodes = [4, 5, 6, 7]\<rparr>) \<and>
   snd (prepare_graph example_engine example_store example_graph) ! 2 = example_store ! 2 \<and>
   get_weights_by_keys
     (snd (prepare_graph example_engine example_store example_graph) ! 2) MOVING_MEAN
     = Some [0] \<and>
   get_weights_by_keys
     (snd (prepare_graph example_engine example_store example_graph) ! 2) MOVING_VARIANCE
     = Some [1] \<and>
   get_weights_by_keys
     (snd (prepare_graph example_engine example_store example_graph) ! 6) MOVING_MEAN
     = Some [8] \<and>
   get_weights_by_keys
     (snd (prepare_graph example_engine example_store example_graph) ! 6) MOVING_VARIANCE
     = Some [1 / 4]"
proof -
  let ?r = "prepare_graph example_engine example_store example_graph"
  have g: "graph_in_store example_store example_graph"
    by (simp add: graph_in_store_def example_store_def example_graph_def)
  have upt: "[4..<8] = [4, 5, 6, 7::nat]"
    by (simp add: upt_rec)
  have f: "fst ?r = (example_graph, \<lparr>nodes = [4, 5, 6, 7]\<rparr>)"
    by (simp add: prepare_graph_eq example_store_def example_graph_def upt)
  then have p: "?r = ((example_graph, \<lparr>nodes = [4, 5, 6, 7]\<rparr>), snd ?r)"
    by (metis prod.collapse)
  note t = prepare_graph_leaves_original_graph_unchanged[OF g p]
  have "2 \<in> set (nodes example_graph)"
    by (simp add: example_graph_def)
  with t have o: "snd ?r ! 2 = example_store ! 2"
    by blast
  have "(2::nat) < length (nodes example_graph)"
    by (simp add: example_graph_def)
  with t have "snd ?r ! (nodes \<lparr>nodes = [4, 5, 6, 7]\<rparr> ! 2) =
      correct_node example_engine (map (\<lambda>a. example_store ! a) (nodes example_graph))
        (example_store ! (nodes example_graph ! 2))"
    by blast
  then have c: "snd ?r ! 6 =
      correct_node example_engine (map (\<lambda>a. example_store ! a) (nodes example_graph)) bn_node"
    by (simp add: example_graph_def example_store_def)
  have bn: "example_store ! 2 = bn_node"
    by (simp add: example_store_def)
  have w2: "get_weights_by_keys bn_node MOVING_MEAN = Some [0]"
           "get_weights_by_keys bn_node MOVING_VARIANCE = Some [1]"
    by (simp_all add: get_weights_by_keys_def bn_node_def)
  have w6: "get_weights_by_keys (correct_node example_engine m bn_node) MOVING_MEAN = Some [8]"
           "get_weights_by_keys (correct_node example_engine m bn_node) MOVING_VARIANCE
              = Some [1 / 4]" for m
    by (simp_all add: get_weights_by_keys_def correct_node_weights example_engine_def
          layer_class_def bn_node_def)
  show ?thesis
    using g f o by (simp add: bn c w2 w6)
qed

text \<open>
  The assertions of \<^verbatim>\<open>ValueSecondMomentTest.run_test\<close> hold whenever the node names of
  the graph are distinct and, for each batch-normalization node, both measured statistics
  differ from the values the node holds.
\<close>

theorem run_test_assertions_hold:
  assumes wf: "graph_in_store s tg"
    and names: "distinct (map (\<lambda>a. name (s ! a)) (nodes tg))"
    and differ: "\<And>a. a \<in> set (nodes tg) \<Longrightarrow> layer_class (s ! a) = BatchNormalization \<Longrightarrow>
        get_weights_by_keys (s ! a) MOVING_MEAN
          \<noteq> Some (fst (e (map (\<lambda>a. s ! a) (nodes tg)) (name (s ! a)))) \<and>
        get_weights_by_keys (s ! a) MOVING_VARIANCE
          \<noteq> Some (snd (e (map (\<lambda>a. s ! a) (nodes tg)) (name (s ! a))))"
  shows "run_test e s tg = Inr True"
proof -
  let ?k = "length (nodes tg)"
  let ?m = "map (\<lambda>a. s ! a) (nodes tg)"
  let ?g2 = "\<lparr>nodes = [length s ..< length s + ?k]\<rparr>"
  let ?s' = "s @ map (\<lambda>a. correct_node e ?m (s ! a)) (nodes tg)"
  have inr: "\<And>a. a \<in> set (nodes tg) \<Longrightarrow> a < length s"
    using wf by (auto simp: graph_in_store_def list_all_iff)
  have find: "find_node_by_name ?s' tg nm = filter (\<lambda>a. name (s ! a) = nm) (nodes tg)" for nm
    unfolding find_node_by_name_def
    by (rule filter_cong) (auto simp: nth_append dest: inr)
  have chk: "check_bn_node ?s' tg (?s' ! b) = Inr True"
    if b: "b \<in> set (nodes ?g2)" and bn: "layer_class (?s' ! b) = BatchNormalization" for b
  proof -
    from b obtain i where i: "i < ?k" and bi: "b = length s + i"
      by (auto simp: nat_le_iff_add)
    let ?a = "nodes tg ! i"
    have a: "?a \<in> set (nodes tg)" using i by simp
    have sb: "?s' ! b = correct_node e ?m (s ! ?a)"
      using i by (simp add: bi nth_append)
    have bn0: "layer_class (s ! ?a) = BatchNormalization"
      using bn by (simp add: sb)
    have "filter (\<lambda>a. name (s ! a) = name (s ! ?a)) (nodes tg) = [?a]"
      using filter_unique_key[OF names i] by simp
    then have f: "find_node_by_name ?s' tg (name (s ! ?a)) = [?a]"
      by (simp add: find)
    have sa: "?s' ! ?a = s ! ?a"
      using inr[OF a] by (simp add: nth_append)
    have "check_bn_node ?s' tg (correct_node e ?m (s ! ?a)) = Inr True"
      using differ[OF a bn0] bn0
      by (auto simp: check_bn_node_def f sa get_weights_by_keys_def correct_node_weights)
    then show ?thesis
      by (simp only: sb)
  qed
  have "run_checks ?s' tg (nodes ?g2) = Inr True"
    by (rule run_checks_all) (rule chk)
  then show ?thesis
    by (simp add: run_test_def prepare_graph_eq)
qed

lemma run_test_example:
  "run_test example_engine example_store example_graph = Inr True"
proof (rule run_test_assertions_hold)
  show "graph_in_store example_store example_graph"
    by (simp add: graph_in_store_def example_store_def example_graph_def)
  show "distinct (map (\<lambda>a. name (example_store ! a)) (nodes example_graph))"
    by (simp add: example_store_def example_graph_def input_node_def conv_node_def
          bn_node_def relu_node_def)
  fix a
  assume "a \<in> set (nodes example_graph)"
    and "layer_class (example_store ! a) = BatchNormalization"
  then have "a = 2"
    by (auto simp: example_graph_def example_store_def layer_class_def input_node_def
          conv_node_def relu_node_def)
  then show "get_weights_by_keys (example_store ! a) MOVING_MEAN
          \<noteq> Some (fst (example_engine (map (\<lambda>a. example_store ! a) (nodes example_graph))
                        (name (example_store ! a)))) \<and>
        get_weights_by_keys (example_store ! a) MOVING_VARIANCE
          \<noteq> Some (snd (example_engine (map (\<lambda>a. example_store ! a) (nodes example_graph))
                        (name (example_store ! a))))"
    by (simp add: example_store_def bn_node_def get_weights_by_keys_def example_engine_def)
qed

end
